theory Spec2Isabelle
  imports Complex_Main "HOL-Library.Word" "HOL-Library.AList" "HOL-Library.Log_Nat"
begin

section \<open>Floating-point arithmetic\<close>

text \<open>
  The program computes in IEEE double precision. A finite double is modelled by the
  rational number it denotes. \<open>fl64\<close> rounds a rational to the nearest number with a
  53-bit significand, ties to the even significand; the exponent range is not bounded
  (the numbers of the colour tables are far from overflow and from the subnormal range).
  The elementary operations are correctly rounded: the exact result, then \<open>fl64\<close>.
\<close>

text \<open>\<open>numpy.around\<close>: rounding to the nearest integer, ties to the even neighbour.\<close>

definition around :: "rat \<Rightarrow> int" where
  "around q =
     (let f = \<lfloor>q\<rfloor>; r = q - of_int f
      in if r < 1 / 2 then f
         else if 1 / 2 < r then f + 1
         else if even f then f else f + 1)"

text \<open>The binary exponent of a positive rational \<open>q\<close>: \<open>2\<^sup>e \<le> q < 2\<^sup>e\<^sup>+\<^sup>1\<close>.\<close>

definition expo :: "rat \<Rightarrow> int" where
  "expo q =
     (case quotient_of q of (a, b) \<Rightarrow>
        let e0 = bitlen a - bitlen b
        in if 2 powi e0 \<le> q then e0 else e0 - 1)"

definition fl64 :: "rat \<Rightarrow> rat" where
  "fl64 q =
     (if q = 0 then 0
      else let u = 2 powi (expo \<bar>q\<bar> - 52) in of_int (around (q / u)) * u)"

definition add64 :: "rat \<Rightarrow> rat \<Rightarrow> rat" where
  "add64 a b = fl64 (a + b)"

definition mul64 :: "rat \<Rightarrow> rat \<Rightarrow> rat" where
  "mul64 a b = fl64 (a * b)"

definition div64 :: "rat \<Rightarrow> rat \<Rightarrow> rat" where
  "div64 a b = fl64 (a / b)"

section \<open>Colour-space tables\<close>

text \<open>
  A pixel is a triple of unsigned 8-bit channels (R, G, B), as the decoder delivers it.
\<close>

type_synonym pixel = "8 word \<times> 8 word \<times> 8 word"

text \<open>
  One cell of \<open>_Htable\<close>, as \<open>_initialize_tables\<close> fills it: the boolean masks
  \<open>done\<close> and \<open>rng\<close> are evaluated at the cell (R, G, B), and the last assignment whose
  mask holds gives the cell's value. The integer operands become doubles exactly; the
  division, the addition and the multiplication are each rounded.
\<close>

definition Htable :: "int \<Rightarrow> int \<Rightarrow> int \<Rightarrow> int" where
  "Htable R G B =
     (let M = max (max R G) B;
          m = min (min R G) B;
          D = M - m;
          done0 = (D = 0);
          rng1 = (m = B \<and> \<not> done0);
          done1 = (rng1 \<or> done0);
          rng2 = (m = R \<and> \<not> done1);
          done2 = (rng2 \<or> done1);
          rng3 = (\<not> done2)
      in if rng3 then around (mul64 60 (add64 5 (div64 (of_int (R - B)) (of_int D))))
         else if rng2 then around (mul64 60 (add64 3 (div64 (of_int (B - G)) (of_int D))))
         else if rng1 then around (mul64 60 (add64 1 (div64 (of_int (G - R)) (of_int D))))
         else - 1)"

text \<open>
  One cell of \<open>_Ltable\<close>. The three weights are the doubles nearest to 0.212, 0.701 and
  0.087; the sum is taken from the left.
\<close>

definition Ltable :: "int \<Rightarrow> int \<Rightarrow> int \<Rightarrow> rat" where
  "Ltable R G B =
     div64 (add64 (add64 (mul64 (fl64 (212 / 1000)) (of_int R))
                         (mul64 (fl64 (701 / 1000)) (of_int G)))
                  (mul64 (fl64 (87 / 1000)) (of_int B)))
           255"

definition hue_of :: "pixel \<Rightarrow> int" where
  "hue_of p = (case p of (r, g, b) \<Rightarrow> Htable (uint r) (uint g) (uint b))"

definition luma_of :: "pixel \<Rightarrow> rat" where
  "luma_of p = (case p of (r, g, b) \<Rightarrow> Ltable (uint r) (uint g) (uint b))"



section \<open>Floating-point results\<close>

text \<open>
  The doubles the engine works with: the finite ones (the rational each denotes), NaN and
  the two infinities.
\<close>

datatype fl = Fin rat | NaN | PInf | NInf

text \<open>
  The arithmetic of the centroid: the elementwise product of an integer array and a double
  array (at one position), \<open>ndarray.sum\<close> of a double array, the division of two doubles
  and the addition of an integer to a double. What \<open>sum\<close> returns depends on numpy's
  order of summation and every operation rounds, so the engine is defined over any such
  arithmetic, and a statement proved for every arithmetic holds for the one the program
  runs on.
\<close>

record arith =
  amul :: "int \<Rightarrow> fl \<Rightarrow> fl"
  asum :: "fl list \<Rightarrow> fl"
  adiv :: "fl \<Rightarrow> fl \<Rightarrow> fl"
  aadd :: "fl \<Rightarrow> int \<Rightarrow> fl"

section \<open>Colour masks\<close>

text \<open>
  \<open>ColorMask\<close>: a hue interval and its display colour. The colour is sampled from
  matplotlib's \<open>hsv\<close> colour map when the mask is built; it is a field here.
\<close>

record ColorMask =
  onset :: rat
  offset :: rat
  color :: "int \<times> int \<times> int"

definition apply_mask :: "ColorMask \<Rightarrow> int list \<Rightarrow> bool list" where
  "apply_mask c hues = map (\<lambda>h. onset c \<le> of_int h \<and> of_int h < offset c) hues"

section \<open>Frames and numpy indexing\<close>

text \<open>
  A two-dimensional array of \<open>nrows\<close> by \<open>ncols\<close> cells; \<open>cell g (r, c)\<close> is
  \<open>g[r, c]\<close>. A frame holds pixels, the annotated frame \<open>M\<close> holds integer colours.
\<close>

record 'a grid =
  nrows :: nat
  ncols :: nat
  cell :: "nat \<times> nat \<Rightarrow> 'a"

type_synonym frame = "pixel grid"
type_synonym cgrid = "(int \<times> int \<times> int) grid"

datatype error = IndexError | RuntimeError string | OSError string | UnboundLocalError

text \<open>An integer index into an axis of length \<open>n\<close>: negative indices count from the end.\<close>

definition norm_index :: "nat \<Rightarrow> int \<Rightarrow> nat option" where
  "norm_index n i =
     (if 0 \<le> i \<and> i < int n then Some (nat i)
      else if - int n \<le> i \<and> i < 0 then Some (nat (i + int n))
      else None)"

definition locate :: "'a grid \<Rightarrow> int \<times> int \<Rightarrow> (nat \<times> nat) option" where
  "locate g p =
     (case norm_index (nrows g) (fst p) of
        None \<Rightarrow> None
      | Some r \<Rightarrow> (case norm_index (ncols g) (snd p) of
                    None \<Rightarrow> None
                  | Some c \<Rightarrow> Some (r, c)))"

text \<open>\<open>a[mask]\<close> for a one-dimensional array and a boolean mask of the same length.\<close>

definition select :: "bool list \<Rightarrow> 'a list \<Rightarrow> 'a list" where
  "select msk xs = map snd (filter fst (zip msk xs))"

definition count_nonzero :: "bool list \<Rightarrow> nat" where
  "count_nonzero msk = length (filter (\<lambda>b. b) msk)"

definition zeros :: "'a grid \<Rightarrow> cgrid" where
  "zeros f = \<lparr>nrows = nrows f, ncols = ncols f, cell = (\<lambda>p. (0, 0, 0))\<rparr>"

definition vector_as_HL :: "pixel list \<Rightarrow> int list \<times> fl list" where
  "vector_as_HL vec = (map hue_of vec, map (\<lambda>p. Fin (luma_of p)) vec)"

section \<open>Regions of interest (rewritten engine)\<close>

record ROI =
  xpos :: "int list"
  ypos :: "int list"

definition arange :: "int \<Rightarrow> int \<Rightarrow> int list" where
  "arange a b = [a..b - 1]"

text \<open>\<open>numpy.meshgrid(xs, ys, indexing='xy')\<close>: two arrays of shape (len ys, len xs).\<close>

definition meshgrid_xy :: "'a list \<Rightarrow> 'b list \<Rightarrow> 'a list list \<times> 'b list list" where
  "meshgrid_xy xs ys = (map (\<lambda>y. xs) ys, map (\<lambda>y. map (\<lambda>x. y) xs) ys)"

definition flatten :: "'a list list \<Rightarrow> 'a list" where
  "flatten rows = concat rows"

definition RectangularROI :: "int \<Rightarrow> int \<Rightarrow> int \<Rightarrow> int \<Rightarrow> ROI" where
  "RectangularROI x y w h =
     (let xvals = arange x (x + w);
          yvals = arange y (y + h);
          (xg, yg) = meshgrid_xy xvals yvals
      in \<lparr>xpos = flatten xg, ypos = flatten yg\<rparr>)"



definition is_empty :: "ROI \<Rightarrow> bool" where
  "is_empty roi = (length (xpos roi) = 0)"

definition coordinates :: "ROI \<Rightarrow> (int \<times> int) list" where
  "coordinates roi = zip (xpos roi) (ypos roi)"

text \<open>
  \<open>frame[ypos, xpos]\<close> and \<open>frame[ypos[mask], xpos[mask]] = value\<close>: index arrays of
  different lengths do not index together, and an index outside its axis raises. (Both
  constructors give index arrays of equal length.)
\<close>

definition crop :: "ROI \<Rightarrow> frame \<Rightarrow> error + pixel list" where
  "crop roi frame =
     (if length (ypos roi) \<noteq> length (xpos roi) then Inl IndexError
      else case those (map (locate frame) (zip (ypos roi) (xpos roi))) of
             None \<Rightarrow> Inl IndexError
           | Some ps \<Rightarrow> Inr (map (cell frame) ps))"

definition mark :: "ROI \<Rightarrow> cgrid \<Rightarrow> bool list \<Rightarrow> int \<times> int \<times> int \<Rightarrow> error + cgrid" where
  "mark roi M msk v =
     (case those (map (locate M) (zip (select msk (ypos roi)) (select msk (xpos roi)))) of
        None \<Rightarrow> Inl IndexError
      | Some ps \<Rightarrow> Inr (fold (\<lambda>p g. g\<lparr>cell := (cell g)(p := v)\<rparr>) ps M))"



section \<open>The rewritten engine: one frame\<close>

text \<open>
  \<open>(a * w).sum() / w.sum()\<close> for an integer coordinate vector \<open>a\<close> and a weight vector
  \<open>w\<close> of the same length.
\<close>

definition centroid :: "arith \<Rightarrow> int list \<Rightarrow> fl list \<Rightarrow> fl" where
  "centroid ar a w =
     adiv ar (asum ar (map (\<lambda>(x, l). amul ar x l) (zip a w))) (asum ar w)"

text \<open>
  The body of the loop over the colour masks in \<open>Pixylation.__update__\<close>: the values
  gathered so far and the annotated frame go in, and come out extended and marked.
\<close>

definition class_step ::
  "arith \<Rightarrow> ROI \<Rightarrow> int list \<Rightarrow> fl list \<Rightarrow> ColorMask \<Rightarrow> fl list \<times> cgrid
     \<Rightarrow> error + fl list \<times> cgrid"
where
  "class_step ar roi roi_H roi_L colormask acc =
     (case acc of (vals, M) \<Rightarrow>
        let roi_match = apply_mask colormask roi_H
        in if count_nonzero roi_match > 0 then
             let match_weight = select roi_match roi_L;
                 match_x = select roi_match (xpos roi);
                 match_y = select roi_match (ypos roi);
                 xrepr = centroid ar match_x match_weight;
                 yrepr = centroid ar match_y match_weight
             in (case mark roi M roi_match (color colormask) of
                   Inl e \<Rightarrow> Inl e
                 | Inr M' \<Rightarrow> Inr (vals @ [aadd ar xrepr 1, aadd ar yrepr 1], M'))
           else Inr (vals @ [NaN, NaN], M))"

fun class_loop ::
  "arith \<Rightarrow> ROI \<Rightarrow> int list \<Rightarrow> fl list \<Rightarrow> (string \<times> ColorMask) list
     \<Rightarrow> fl list \<times> cgrid \<Rightarrow> error + fl list \<times> cgrid"
where
  "class_loop ar roi roi_H roi_L [] acc = Inr acc"
| "class_loop ar roi roi_H roi_L ((maskname, colormask) # rest) acc =
     (case class_step ar roi roi_H roi_L colormask acc of
        Inl e \<Rightarrow> Inl e
      | Inr acc' \<Rightarrow> class_loop ar roi roi_H roi_L rest acc')"

text \<open>One region: crop, look the pixels up in the tables, run the colour masks.\<close>

definition roi_values ::
  "arith \<Rightarrow> (string \<times> ColorMask) list \<Rightarrow> ROI \<Rightarrow> frame \<Rightarrow> cgrid
     \<Rightarrow> error + fl list \<times> cgrid"
where
  "roi_values ar masks roi frame M =
     (case crop roi frame of
        Inl e \<Rightarrow> Inl e
      | Inr vec \<Rightarrow>
          (case vector_as_HL vec of (roi_H, roi_L) \<Rightarrow>
             class_loop ar roi roi_H roi_L masks ([], M)))"

section \<open>Text output\<close>

fun string_of_nat :: "nat \<Rightarrow> string" where
  "string_of_nat n =
     (if n < 10 then [char_of (48 + n)]
      else string_of_nat (n div 10) @ [char_of (48 + n mod 10)])"

text \<open>\<open>sep.join(parts)\<close>.\<close>

fun join :: "string \<Rightarrow> string list \<Rightarrow> string" where
  "join sep [] = []"
| "join sep [s] = s"
| "join sep (s # t # rest) = s @ sep @ join sep (t # rest)"

text \<open>
  \<open>'{0:.4f}'.format(v)\<close>: the exact value of the double rounded to four decimals (ties
  to even), written with its sign, its integer part, a point and four digits; the
  non-finite values are spelled \<open>nan\<close>, \<open>inf\<close> and \<open>-inf\<close>.
\<close>

definition pad4 :: "nat \<Rightarrow> string" where
  "pad4 n = (let s = string_of_nat n in replicate (4 - length s) CHR ''0'' @ s)"

fun format4f :: "fl \<Rightarrow> string" where
  "format4f (Fin q) =
     (let n = nat \<bar>around (q * 10000)\<bar>
      in (if q < 0 then ''-'' else '''') @ string_of_nat (n div 10000) @ ''.'' @ pad4 (n mod 10000))"
| "format4f NaN = ''nan''"
| "format4f PInf = ''inf''"
| "format4f NInf = ''-inf''"

definition mask_entries :: "string \<Rightarrow> string" where
  "mask_entries maskname = maskname @ ''_CM_X,'' @ maskname @ ''_CM_Y''"

definition header_line :: "string list \<Rightarrow> string" where
  "header_line masknames = ''Slice,'' @ join '','' (map mask_entries masknames)"

definition row_line :: "nat \<Rightarrow> fl list \<Rightarrow> string" where
  "row_line i vals = string_of_nat i @ '','' @ join '','' (map format4f vals) @ ''\<newline>''"


section \<open>Paths\<close>

text \<open>\<open>p.rfind(c)\<close>: the last index of \<open>c\<close> in \<open>p\<close>, or \<open>-1\<close>.\<close>

definition rfind :: "string \<Rightarrow> char \<Rightarrow> int" where
  "rfind p c =
     (case filter (\<lambda>i. p ! i = c) (rev [0..<length p]) of
        [] \<Rightarrow> - 1
      | i # _ \<Rightarrow> int i)"

text \<open>\<open>os.path.join\<close>, \<open>os.path.splitext\<close> and the tail of \<open>os.path.split\<close> (POSIX).\<close>

definition path_join :: "string \<Rightarrow> string \<Rightarrow> string" where
  "path_join a b =
     (if b \<noteq> [] \<and> hd b = CHR ''/'' then b
      else if a = [] \<or> last a = CHR ''/'' then a @ b
      else a @ ''/'' @ b)"

definition splitext :: "string \<Rightarrow> string \<times> string" where
  "splitext p =
     (let sepIndex = rfind p CHR ''/''; dotIndex = rfind p CHR ''.''
      in if dotIndex > sepIndex
            \<and> list_ex (\<lambda>k. p ! k \<noteq> CHR ''.'') [nat (sepIndex + 1)..<nat dotIndex]
         then (take (nat dotIndex) p, drop (nat dotIndex) p)
         else (p, []))"

definition split_tail :: "string \<Rightarrow> string" where
  "split_tail p = drop (nat (rfind p CHR ''/'' + 1)) p"

section \<open>The rewritten engine: start, update, done\<close>

record sink =
  spath :: string
  content :: string
  sclosed :: bool

record vsink =
  vpath :: string
  vframes :: "cgrid list"
  vclosed :: bool

record config =
  masks :: "(string \<times> ColorMask) list"
  ROIs :: "(string \<times> ROI) list"
  maskdir :: string
  resultdir :: string

record pstate =
  resultfiles :: "(string \<times> sink) list"
  maskfile :: "vsink option"
  masknames :: "string list"

text \<open>
  The file system as the engine meets it: whether a directory can be ensured, a result
  file opened for writing, a video writer created.
\<close>

record env =
  mkdir_ok :: "string \<Rightarrow> bool"
  open_ok :: "string \<Rightarrow> bool"
  video_ok :: "string \<Rightarrow> bool"

definition resultpath_of :: "string \<Rightarrow> string \<Rightarrow> string \<Rightarrow> string" where
  "resultpath_of rdir basename roiname =
     path_join rdir (''Results_'' @ basename @ ''_'' @ roiname @ ''.csv'')"

definition maskpath_of :: "string \<Rightarrow> string \<Rightarrow> string" where
  "maskpath_of mdir basename = path_join mdir (''MASK_'' @ basename @ ''.mp4'')"

fun open_results ::
  "env \<Rightarrow> string \<Rightarrow> string \<Rightarrow> string list \<Rightarrow> (string \<times> ROI) list
     \<Rightarrow> (string \<times> sink) list \<Rightarrow> (string \<times> sink) list"
where
  "open_results e rdir basename names [] files = files"
| "open_results e rdir basename names ((roiname, roi) # rest) files =
     (if is_empty roi then open_results e rdir basename names rest files
      else let resultpath = resultpath_of rdir basename roiname
           in if open_ok e resultpath
              then open_results e rdir basename names rest
                     (AList.update roiname
                        \<lparr>spath = resultpath,
                         content = header_line names @ ''\<newline>'',
                         sclosed = False\<rparr> files)
              else open_results e rdir basename names rest files)"

definition Pixylation_start :: "env \<Rightarrow> config \<Rightarrow> string \<Rightarrow> error + pstate" where
  "Pixylation_start e cfg name =
     (let names = map fst (masks cfg);
          basename = fst (splitext name)
      in if \<not> mkdir_ok e (maskdir cfg) then Inl (OSError (maskdir cfg))
         else if \<not> mkdir_ok e (resultdir cfg) then Inl (OSError (resultdir cfg))
         else let files = open_results e (resultdir cfg) basename names (ROIs cfg) []
              in if length files = 0
                 then Inl (RuntimeError (''nothing to output for '' @ name))
                 else let maskpath = maskpath_of (maskdir cfg) basename
                      in Inr \<lparr>resultfiles = files,
                              maskfile = (if video_ok e maskpath
                                          then Some \<lparr>vpath = maskpath, vframes = [],
                                                      vclosed = False\<rparr>
                                          else None),
                              masknames = names\<rparr>)"

fun roi_loop ::
  "arith \<Rightarrow> (string \<times> ColorMask) list \<Rightarrow> nat \<Rightarrow> frame \<Rightarrow> (string \<times> ROI) list
     \<Rightarrow> (string \<times> sink) list \<times> cgrid \<Rightarrow> error option \<times> (string \<times> sink) list \<times> cgrid"
where
  "roi_loop ar ms i frame [] acc = (None, acc)"
| "roi_loop ar ms i frame ((roiname, roi) # rest) acc =
     (case acc of (files, M) \<Rightarrow>
        (case map_of files roiname of
           None \<Rightarrow> roi_loop ar ms i frame rest (files, M)
         | Some f \<Rightarrow>
             (case roi_values ar ms roi frame M of
                Inl e \<Rightarrow> (Some e, files, M)
              | Inr (vals, M') \<Rightarrow>
                  roi_loop ar ms i frame rest
                    (AList.update roiname (f\<lparr>content := content f @ row_line i vals\<rparr>) files,
                     M'))))"

definition Pixylation_update ::
  "arith \<Rightarrow> config \<Rightarrow> pstate \<Rightarrow> nat \<Rightarrow> frame \<Rightarrow> error option \<times> pstate"
where
  "Pixylation_update ar cfg st i frame =
     (case roi_loop ar (masks cfg) i frame (ROIs cfg) (resultfiles st, zeros frame) of
        (Some e, files, M) \<Rightarrow> (Some e, st\<lparr>resultfiles := files\<rparr>)
      | (None, files, M) \<Rightarrow>
          (None, st\<lparr>resultfiles := files,
                    maskfile := map_option (\<lambda>v. v\<lparr>vframes := vframes v @ [M]\<rparr>)
                                  (maskfile st)\<rparr>))"

definition Pixylation_done :: "pstate \<Rightarrow> pstate" where
  "Pixylation_done st =
     st\<lparr>resultfiles := map (\<lambda>(k, f). (k, f\<lparr>sclosed := True\<rparr>)) (resultfiles st),
        maskfile := map_option (\<lambda>v. v\<lparr>vclosed := True\<rparr>) (maskfile st)\<rparr>"


section \<open>The single-file job\<close>

text \<open>
  A batch command as the \<open>Processor\<close> sees it: the three hooks, each acting on the
  command's state and possibly raising.
\<close>

record 's proc =
  proc_start :: "'s \<Rightarrow> string \<Rightarrow> error option \<times> 's"
  proc_update :: "'s \<Rightarrow> nat \<Rightarrow> frame \<Rightarrow> error option \<times> 's"
  proc_done :: "'s \<Rightarrow> string \<Rightarrow> bool \<Rightarrow> error option \<times> 's"

datatype outcome = Returned | Raised error

text \<open>
  What a run of one file leaves behind: whether the reader was opened and whether it was
  closed, how many frames were handed to \<open>__update__\<close>, whether \<open>__done__\<close> was called,
  the command's state, and how the \<open>with\<close> statement ended.
\<close>

record 's job =
  reader_opened :: bool
  reader_closed :: bool
  frames_seen :: nat
  done_called :: bool
  final :: 's
  result :: outcome

text \<open>
  The body of the \<open>with\<close> statement in \<open>AbstractBatch.run\<close>: \<open>Processor.__iter__\<close>
  enumerates the decoded frames from 0 and each goes to \<open>__update__\<close>. An item \<open>Inl e\<close> of
  the stream is the decoder raising \<open>e\<close> at that point. After the last frame the generator
  formats \<open>i + 1\<close>, which is unbound when no frame was produced at all.
\<close>

fun frames_loop ::
  "'s proc \<Rightarrow> nat \<Rightarrow> (error + frame) list \<Rightarrow> 's \<Rightarrow> error option \<times> nat \<times> 's"
where
  "frames_loop p i [] s = (if i = 0 then Some UnboundLocalError else None, i, s)"
| "frames_loop p i (Inl e # rest) s = (Some e, i, s)"
| "frames_loop p i (Inr frame # rest) s =
     (case proc_update p s i frame of
        (Some e, s') \<Rightarrow> (Some e, Suc i, s')
      | (None, s') \<Rightarrow> frames_loop p (Suc i) rest s')"

text \<open>
  \<open>with Processor(proc, path) as reader: ...\<close>. \<open>__enter__\<close> creates the reader and calls
  \<open>__start__\<close>; an exception there leaves the \<open>with\<close> statement before its body and
  without \<open>__exit__\<close>. \<open>__exit__\<close> calls \<open>__done__\<close>, closes the reader in its
  \<open>finally\<close> clause, and never suppresses an exception of the body.
\<close>

definition run_file ::
  "'s proc \<Rightarrow> string \<Rightarrow> bool \<Rightarrow> (error + frame) list \<Rightarrow> 's \<Rightarrow> 's job"
where
  "run_file p path readable stream s0 =
     (let name = split_tail path
      in if \<not> readable
         then \<lparr>reader_opened = False, reader_closed = False, frames_seen = 0,
               done_called = False, final = s0, result = Raised (OSError path)\<rparr>
         else (case proc_start p s0 name of
                 (Some e, s1) \<Rightarrow>
                   \<lparr>reader_opened = True, reader_closed = False, frames_seen = 0,
                    done_called = False, final = s1, result = Raised e\<rparr>
               | (None, s1) \<Rightarrow>
                   (case frames_loop p 0 stream s1 of (exc, n, s2) \<Rightarrow>
                      (case proc_done p s2 name (exc \<noteq> None) of (derr, s3) \<Rightarrow>
                         \<lparr>reader_opened = True, reader_closed = True, frames_seen = n,
                          done_called = True, final = s3,
                          result = (case exc of None \<Rightarrow> Returned | Some e \<Rightarrow> Raised e)\<rparr>))))"

definition initial_pstate :: pstate where
  "initial_pstate = \<lparr>resultfiles = [], maskfile = None, masknames = []\<rparr>"

text \<open>
  The Pixylation command as a \<open>proc\<close>. \<open>__start__\<close> resets the sinks before anything
  can fail, so a failed start leaves the command with no sink.
\<close>

definition Pixylation :: "arith \<Rightarrow> env \<Rightarrow> config \<Rightarrow> pstate proc" where
  "Pixylation ar e cfg =
     \<lparr>proc_start = (\<lambda>s name. case Pixylation_start e cfg name of
                                 Inl err \<Rightarrow> (Some err, initial_pstate)
                               | Inr s' \<Rightarrow> (None, s')),
      proc_update = (\<lambda>s i frame. Pixylation_update ar cfg s i frame),
      proc_done = (\<lambda>s name err. (None, Pixylation_done s))\<rparr>"



section \<open>Arithmetic without rounding\<close>

text \<open>
  The arithmetic in which no operation rounds: the exact arithmetic some claims speak of,
  and the one the concrete instances below are evaluated in. A division of finite numbers
  by zero gives NaN or an infinity as in IEEE arithmetic; an operation on a non-finite
  operand gives NaN, except that adding an integer leaves it as it is.
\<close>

fun exact_mul :: "int \<Rightarrow> fl \<Rightarrow> fl" where
  "exact_mul x (Fin q) = Fin (of_int x * q)"
| "exact_mul x v = NaN"

fun exact_plus :: "fl \<Rightarrow> fl \<Rightarrow> fl" where
  "exact_plus (Fin a) (Fin b) = Fin (a + b)"
| "exact_plus u v = NaN"

definition exact_sum :: "fl list \<Rightarrow> fl" where
  "exact_sum ws = foldl exact_plus (Fin 0) ws"

fun exact_div :: "fl \<Rightarrow> fl \<Rightarrow> fl" where
  "exact_div (Fin a) (Fin b) =
     (if b = 0 then (if a = 0 then NaN else if 0 < a then PInf else NInf)
      else Fin (a / b))"
| "exact_div u v = NaN"

fun exact_add :: "fl \<Rightarrow> int \<Rightarrow> fl" where
  "exact_add (Fin q) c = Fin (q + of_int c)"
| "exact_add v c = v"

definition exact :: arith where
  "exact = \<lparr>amul = exact_mul, asum = exact_sum, adiv = exact_div, aadd = exact_add\<rparr>"

section \<open>The legacy engine\<close>

text \<open>The legacy \<open>ROI\<close> keeps the rectangle itself; its \<open>Mask\<close> is a \<open>ColorMask\<close>.\<close>

datatype LROI = LROI (lx: int) (ly: int) (lw: int) (lh: int)


text \<open>A bound of a Python slice over an axis of length \<open>n\<close>, clamped to the axis.\<close>

definition slice_bound :: "nat \<Rightarrow> int \<Rightarrow> nat" where
  "slice_bound n i = (if i < 0 then nat (max 0 (int n + i)) else min (nat i) n)"

definition clear :: "(nat \<times> nat \<Rightarrow> bool) \<Rightarrow> bool grid \<Rightarrow> bool grid" where
  "clear P g = g\<lparr>cell := (\<lambda>p. if P p then False else cell g p)\<rparr>"

text \<open>\<open>ROI.apply\<close>: four slice assignments of \<open>False\<close>, in the order of the source.\<close>

definition legacy_apply :: "LROI \<Rightarrow> bool grid \<Rightarrow> bool grid" where
  "legacy_apply roi vals =
     (let v1 = clear (\<lambda>(r, c). r < slice_bound (nrows vals) (ly roi)) vals;
          v2 = clear (\<lambda>(r, c). slice_bound (nrows vals) (ly roi + lh roi) \<le> r) v1;
          v3 = clear (\<lambda>(r, c). c < slice_bound (ncols vals) (lx roi)) v2;
          v4 = clear (\<lambda>(r, c). slice_bound (ncols vals) (lx roi + lw roi) \<le> c) v3
      in v4)"

definition gmap :: "('a \<Rightarrow> 'b) \<Rightarrow> 'a grid \<Rightarrow> 'b grid" where
  "gmap f g = \<lparr>nrows = nrows g, ncols = ncols g, cell = (\<lambda>p. f (cell g p))\<rparr>"

definition as_HL :: "frame \<Rightarrow> int grid \<times> fl grid" where
  "as_HL frame = (gmap hue_of frame, gmap (\<lambda>p. Fin (luma_of p)) frame)"

definition Mask_apply :: "ColorMask \<Rightarrow> int grid \<Rightarrow> bool grid" where
  "Mask_apply c hues = gmap (\<lambda>h. onset c \<le> of_int h \<and> of_int h < offset c) hues"

text \<open>The cells of an array in row-major order, and \<open>a[match]\<close> for a boolean array.\<close>

definition positions :: "nat \<Rightarrow> nat \<Rightarrow> (nat \<times> nat) list" where
  "positions nr nc = concat (map (\<lambda>r. map (\<lambda>c. (r, c)) [0..<nc]) [0..<nr])"

definition gselect :: "bool grid \<Rightarrow> 'a grid \<Rightarrow> 'a list" where
  "gselect match g =
     map (cell g) (filter (cell match) (positions (nrows match) (ncols match)))"

definition gcount :: "bool grid \<Rightarrow> nat" where
  "gcount match = length (filter (cell match) (positions (nrows match) (ncols match)))"

text \<open>
  The coordinate arrays the legacy engine builds from the frame's shape:
  \<open>meshgrid(arange(1, w + 1), arange(1, h + 1), indexing='xy')\<close>.
\<close>

definition legacy_xpos :: "frame \<Rightarrow> int grid" where
  "legacy_xpos frame =
     \<lparr>nrows = nrows frame, ncols = ncols frame,
      cell = (\<lambda>(r, c). arange 1 (int (ncols frame) + 1) ! c)\<rparr>"

definition legacy_ypos :: "frame \<Rightarrow> int grid" where
  "legacy_ypos frame =
     \<lparr>nrows = nrows frame, ncols = ncols frame,
      cell = (\<lambda>(r, c). arange 1 (int (nrows frame) + 1) ! r)\<rparr>"

definition legacy_class_step ::
  "arith \<Rightarrow> LROI \<Rightarrow> frame \<Rightarrow> ColorMask \<Rightarrow> fl list \<times> cgrid \<Rightarrow> fl list \<times> cgrid"
where
  "legacy_class_step ar roi frame m acc =
     (case acc of (vals, M) \<Rightarrow>
        (case as_HL frame of (H, L) \<Rightarrow>
           let match = legacy_apply roi (Mask_apply m H)
           in if gcount match > 0 then
                let weight = gselect match L;
                    x = gselect match (legacy_xpos frame);
                    y = gselect match (legacy_ypos frame)
                in (vals @ [centroid ar x weight, centroid ar y weight],
                    M\<lparr>cell := (\<lambda>p. if cell match p then color m else cell M p)\<rparr>)
              else (vals @ [NaN, NaN], M)))"

fun legacy_class_loop ::
  "arith \<Rightarrow> LROI \<Rightarrow> frame \<Rightarrow> (string \<times> ColorMask) list \<Rightarrow> fl list \<times> cgrid \<Rightarrow> fl list \<times> cgrid"
where
  "legacy_class_loop ar roi frame [] acc = acc"
| "legacy_class_loop ar roi frame ((maskname, m) # rest) acc =
     legacy_class_loop ar roi frame rest (legacy_class_step ar roi frame m acc)"

definition legacy_roi_values ::
  "arith \<Rightarrow> (string \<times> ColorMask) list \<Rightarrow> LROI \<Rightarrow> frame \<Rightarrow> cgrid \<Rightarrow> fl list \<times> cgrid"
where
  "legacy_roi_values ar ms roi frame M = legacy_class_loop ar roi frame ms ([], M)"



section \<open>Vocabulary of the statements\<close>

text \<open>
  The notions the claims are stated with. None of them is part of the program: they say
  in the words of the specification what the program's results are compared with.
\<close>

text \<open>Membership of a hue in a colour class.\<close>

definition matches :: "ColorMask \<Rightarrow> int \<Rightarrow> bool" where
  "matches cm h = (onset cm \<le> of_int h \<and> of_int h < offset cm)"

text \<open>The indices of the pixels of a cropped vector that a colour class matches.\<close>

definition matched :: "ColorMask \<Rightarrow> pixel list \<Rightarrow> nat list" where
  "matched cm vec = filter (\<lambda>j. matches cm (hue_of (vec ! j))) [0..<length vec]"

text \<open>
  The luminance-weighted centroid \<open>\<Sum>(x\<^sub>i \<cdot> lum\<^sub>i) / \<Sum>(lum\<^sub>i)\<close> over the pixels with
  indices \<open>idx\<close>, along the axis whose coordinates are \<open>coords\<close>, in a given arithmetic.
\<close>

definition weighted_centroid :: "arith \<Rightarrow> int list \<Rightarrow> pixel list \<Rightarrow> nat list \<Rightarrow> fl" where
  "weighted_centroid ar coords vec idx =
     adiv ar (asum ar (map (\<lambda>j. amul ar (coords ! j) (Fin (luma_of (vec ! j)))) idx))
             (asum ar (map (\<lambda>j. Fin (luma_of (vec ! j))) idx))"

text \<open>The two values one colour class contributes to a row, and the values of a row.\<close>

definition class_values :: "arith \<Rightarrow> ROI \<Rightarrow> int list \<Rightarrow> fl list \<Rightarrow> ColorMask \<Rightarrow> fl list" where
  "class_values ar roi H L cm =
     (let m = apply_mask cm H
      in if count_nonzero m > 0
         then [aadd ar (centroid ar (select m (xpos roi)) (select m L)) 1,
               aadd ar (centroid ar (select m (ypos roi)) (select m L)) 1]
         else [NaN, NaN])"

definition row_values :: "arith \<Rightarrow> (string \<times> ColorMask) list \<Rightarrow> ROI \<Rightarrow> pixel list \<Rightarrow> fl list" where
  "row_values ar ms roi vec =
     concat (map (\<lambda>(n, cm). class_values ar roi (map hue_of vec)
                               (map (\<lambda>p. Fin (luma_of p)) vec) cm) ms)"

text \<open>The cells of a frame that a region covers.\<close>

definition roi_cells :: "ROI \<Rightarrow> 'a grid \<Rightarrow> (nat \<times> nat) set" where
  "roi_cells roi g = (\<lambda>p. the (locate g p)) ` set (zip (ypos roi) (xpos roi))"

text \<open>
  The colour a cell of hue \<open>h\<close> ends with when the classes are run in declaration order
  over a cell that held \<open>c0\<close>: each matching class overwrites what was there.
\<close>

definition paint ::
  "(string \<times> ColorMask) list \<Rightarrow> int \<Rightarrow> int \<times> int \<times> int \<Rightarrow> int \<times> int \<times> int"
where
  "paint ms h c0 = fold (\<lambda>(n, cm) c. if matches cm h then color cm else c) ms c0"


section \<open>Concrete instances\<close>

text \<open>A file system on which everything succeeds, and small configurations and frames.\<close>

definition all_ok :: env where
  "all_ok = \<lparr>mkdir_ok = (\<lambda>d. True), open_ok = (\<lambda>f. True), video_ok = (\<lambda>f. True)\<rparr>"

definition red :: ColorMask where
  "red = \<lparr>onset = 0, offset = 30, color = (255, 64, 0)\<rparr>"

definition warm :: ColorMask where
  "warm = \<lparr>onset = 0, offset = 90, color = (255, 191, 0)\<rparr>"

definition green :: ColorMask where
  "green = \<lparr>onset = 90, offset = 150, color = (0, 255, 0)\<rparr>"

text \<open>A configuration whose only region is a rectangle of width 0.\<close>

definition no_region :: config where
  "no_region =
     \<lparr>masks = [(''red'', red)],
      ROIs = [(''a'', RectangularROI 0 0 0 5)],
      maskdir = ''out'', resultdir = ''out''\<rparr>"


section \<open>Properties of the tables\<close>












section \<open>Regions\<close>

lemma zip_mesh:
  "zip (concat (map (\<lambda>y. xs) ys)) (concat (map (\<lambda>y. map (\<lambda>x. y) xs) ys))
     = concat (map (\<lambda>y. map (\<lambda>x. (x, y)) xs) ys)"
  by (induction ys) (simp_all add: zip_map2 zip_same_conv_map)

lemma coordinates_rect:
  "coordinates (RectangularROI x y w h)
     = concat (map (\<lambda>b. map (\<lambda>a. (a, b)) (arange x (x + w))) (arange y (y + h)))"
  by (simp add: coordinates_def RectangularROI_def meshgrid_xy_def flatten_def Let_def zip_mesh)

lemma set_arange: "set (arange a b) = {a..<b}"
  by (auto simp: arange_def)

lemma length_arange: "length (arange a b) = nat (b - a)"
  by (simp add: arange_def)

lemma distinct_arange: "distinct (arange a b)"
  by (simp add: arange_def)

lemma length_mesh: "length (concat (map (\<lambda>b. map (f b) xs) ys)) = length xs * length ys"
  by (induction ys) simp_all

lemma distinct_mesh:
  "distinct xs \<Longrightarrow> distinct ys \<Longrightarrow> distinct (concat (map (\<lambda>b. map (\<lambda>a. (a, b)) xs) ys))"
  by (induction ys) (auto simp: distinct_map inj_on_def)

text \<open>
  Claim C6. For a rectangular region built from non-negative integers x, y, w, h, the
  flattened coordinate sequence is, as a set, exactly the Cartesian product
  \<open>[x, x+w) \<times> [y, y+h)\<close>; it has exactly \<open>w * h\<close> entries and none of them occurs
  twice, whatever the order of the sequence.
\<close>

theorem rect_coordinates:
  assumes "0 \<le> x" "0 \<le> y" "0 \<le> w" "0 \<le> h"
  shows "set (coordinates (RectangularROI x y w h)) = {x..<x + w} \<times> {y..<y + h}
       \<and> length (coordinates (RectangularROI x y w h)) = nat (w * h)
       \<and> distinct (coordinates (RectangularROI x y w h))"
proof -
  have s: "set (coordinates (RectangularROI x y w h)) = {x..<x + w} \<times> {y..<y + h}"
    by (auto simp: coordinates_rect set_arange)
  have l: "length (coordinates (RectangularROI x y w h)) = nat (w * h)"
    using assms by (simp add: coordinates_rect length_mesh length_arange nat_mult_distrib)
  have d: "distinct (coordinates (RectangularROI x y w h))"
    by (simp add: coordinates_rect distinct_mesh distinct_arange)
  show ?thesis using s l d by simp
qed

theorem rect_coordinates_witness:
  "(0::int) \<le> 2 \<and> (0::int) \<le> 1 \<and> (0::int) \<le> 3 \<and>
   set (coordinates (RectangularROI 2 1 3 2)) = {2..<2 + 3} \<times> {1..<1 + 2}
       \<and> length (coordinates (RectangularROI 2 1 3 2)) = nat (3 * 2)
       \<and> distinct (coordinates (RectangularROI 2 1 3 2))"
  using rect_coordinates [of 2 1 3 2] by simp








section \<open>The single-file job\<close>

text \<open>
  Claim C5 asks that the frame source be released on every exit path. It is when
  \<open>__start__\<close> returns: \<open>__exit__\<close> then runs \<open>__done__\<close> and closes the reader,
  whatever the frames, \<open>__update__\<close> or \<open>__done__\<close> do. It is not when \<open>__start__\<close> raises:
  the exception leaves \<open>__enter__\<close> before any frame is read, \<open>__exit__\<close> is not run, and
  the reader that \<open>__enter__\<close> had already opened stays open.
\<close>

theorem reader_release:
  "(\<forall>e s1. proc_start p s0 (split_tail path) = (Some e, s1) \<longrightarrow>
      reader_opened (run_file p path True stream s0) \<and>
      \<not> reader_closed (run_file p path True stream s0) \<and>
      \<not> done_called (run_file p path True stream s0) \<and>
      frames_seen (run_file p path True stream s0) = 0 \<and>
      result (run_file p path True stream s0) = Raised e) \<and>
   (\<forall>s1. proc_start p s0 (split_tail path) = (None, s1) \<longrightarrow>
      reader_closed (run_file p path True stream s0) \<and>
      done_called (run_file p path True stream s0))"
  by (auto simp: run_file_def Let_def split: prod.splits option.splits)

lemma no_region_start:
  "Pixylation_start all_ok no_region (split_tail ''in/clip.mp4'')
     = Inl (RuntimeError ''nothing to output for clip.mp4'')"
proof -
  have "case Pixylation_start all_ok no_region (split_tail ''in/clip.mp4'') of
          Inl e \<Rightarrow> e = RuntimeError ''nothing to output for clip.mp4'' | Inr s \<Rightarrow> False"
    by code_simp
  then show ?thesis
    by (cases "Pixylation_start all_ok no_region (split_tail ''in/clip.mp4'')") simp_all
qed

lemma no_region_proc_start: "proc_start (Pixylation exact all_ok no_region) initial_pstate (split_tail ''in/clip.mp4'')
   = (Some (RuntimeError ''nothing to output for clip.mp4''), initial_pstate)"
  by (simp add: Pixylation_def no_region_start)

theorem reader_release_witness:
  "reader_opened (run_file (Pixylation exact all_ok no_region) ''in/clip.mp4'' True [] initial_pstate) \<and>
   \<not> reader_closed (run_file (Pixylation exact all_ok no_region) ''in/clip.mp4'' True [] initial_pstate) \<and>
   result (run_file (Pixylation exact all_ok no_region) ''in/clip.mp4'' True [] initial_pstate)
     = Raised (RuntimeError ''nothing to output for clip.mp4'')"
  using reader_release [of "Pixylation exact all_ok no_region" initial_pstate "''in/clip.mp4''" "[]"] no_region_proc_start
  by simp


end
